theory Spec2Isabelle
  imports Main "HOL-Library.Word"
begin

section \<open>JavaScript strings\<close>

text \<open>
  A JavaScript string is a sequence of UTF-16 code units; \<open>length\<close>, \<open>trim\<close> and a
  regular expression without the \<open>u\<close> flag all work on code units. String literals of
  the source are written \<open>js ''...''\<close>.
\<close>

type_synonym code_unit = "16 word"

type_synonym jsstring = "code_unit list"

definition js :: "string \<Rightarrow> jsstring" where
  "js s = map of_char s"

text \<open>
  The code units that \<open>String.prototype.trim\<close> strips (WhiteSpace and LineTerminator of
  ECMAScript); the class \<open>\s\<close> of a regular expression is the same set.
\<close>

definition is_js_space :: "code_unit \<Rightarrow> bool" where
  "is_js_space c =
     (c = 0x0009 \<or> c = 0x000A \<or> c = 0x000B \<or> c = 0x000C \<or> c = 0x000D \<or> c = 0x0020
      \<or> c = 0x00A0 \<or> c = 0x1680 \<or> (0x2000 \<le> c \<and> c \<le> 0x200A) \<or> c = 0x2028
      \<or> c = 0x2029 \<or> c = 0x202F \<or> c = 0x205F \<or> c = 0x3000 \<or> c = 0xFEFF)"

definition trim :: "jsstring \<Rightarrow> jsstring" where
  "trim s = rev (dropWhile is_js_space (rev (dropWhile is_js_space s)))"

text \<open>
  A value that may be \<open>undefined\<close> is a \<open>jsstring option\<close>. \<open>a || d\<close> yields \<open>a\<close> when
  it is truthy (defined and not the empty string) and \<open>d\<close> otherwise; \<open>String(a)\<close>, which
  \<open>localStorage.setItem\<close> applies to its value, turns \<open>undefined\<close> into the text
  "undefined".
\<close>

definition or_else :: "jsstring option \<Rightarrow> jsstring \<Rightarrow> jsstring" where
  "or_else a d = (case a of None \<Rightarrow> d | Some s \<Rightarrow> if s = [] then d else s)"

definition to_String :: "jsstring option \<Rightarrow> jsstring" where
  "to_String a = (case a of None \<Rightarrow> js ''undefined'' | Some s \<Rightarrow> s)"

section \<open>Regular expressions of the source\<close>

text \<open>
  \<open>/[C]/.test(s)\<close> for a character class \<open>C\<close>: the pattern is not anchored, so it
  matches when some code unit of \<open>s\<close> is in the class.
\<close>

fun rx_class_test :: "(code_unit \<Rightarrow> bool) \<Rightarrow> jsstring \<Rightarrow> bool" where
  "rx_class_test p [] = False"
| "rx_class_test p (c # cs) = (p c \<or> rx_class_test p cs)"

definition upper_AZ :: "code_unit \<Rightarrow> bool" where
  "upper_AZ c = (0x41 \<le> c \<and> c \<le> 0x5A)"

definition lower_az :: "code_unit \<Rightarrow> bool" where
  "lower_az c = (0x61 \<le> c \<and> c \<le> 0x7A)"

definition digit_09 :: "code_unit \<Rightarrow> bool" where
  "digit_09 c = (0x30 \<le> c \<and> c \<le> 0x39)"

definition not_alnum :: "code_unit \<Rightarrow> bool" where
  "not_alnum c = (\<not> (upper_AZ c \<or> lower_az c \<or> digit_09 c))"

text \<open>
  An anchored pattern is matched by backtracking, written in continuation style:
  \<open>rx_plus p k\<close> is \<open>[p]+\<close> followed by the rest of the pattern \<open>k\<close> (greedy: it first
  tries to take one more code unit), \<open>rx_lit c k\<close> is the literal \<open>c\<close> followed by \<open>k\<close>,
  and \<open>rx_end\<close> is \<open>$\<close>.
\<close>

fun rx_plus :: "(code_unit \<Rightarrow> bool) \<Rightarrow> (jsstring \<Rightarrow> bool) \<Rightarrow> jsstring \<Rightarrow> bool" where
  "rx_plus p k [] = False"
| "rx_plus p k (c # cs) = (p c \<and> (rx_plus p k cs \<or> k cs))"

fun rx_lit :: "code_unit \<Rightarrow> (jsstring \<Rightarrow> bool) \<Rightarrow> jsstring \<Rightarrow> bool" where
  "rx_lit c k [] = False"
| "rx_lit c k (d # ds) = (d = c \<and> k ds)"

fun rx_end :: "jsstring \<Rightarrow> bool" where
  "rx_end [] = True"
| "rx_end (c # cs) = False"

text \<open>The class \<open>[^\s@]\<close>.\<close>

definition not_space_at :: "code_unit \<Rightarrow> bool" where
  "not_space_at c = (\<not> is_js_space c \<and> c \<noteq> 0x40)"

text \<open>\<open>emailRegex = /^[^\s@]+@[^\s@]+\.[^\s@]+$/\<close> and its \<open>test\<close>.\<close>

definition emailRegex_test :: "jsstring \<Rightarrow> bool" where
  "emailRegex_test s =
     rx_plus not_space_at
       (rx_lit 0x40
         (rx_plus not_space_at
           (rx_lit 0x2E
             (rx_plus not_space_at rx_end)))) s"

section \<open>The browser around the components\<close>

text \<open>
  The effects of the two components are calls of \<open>localStorage.setItem\<close>, \<open>fetch\<close>,
  \<open>navigate\<close> and of the functions \<open>login\<close> and \<open>signup\<close> of the authentication context.
  The model keeps the storage as a map and the calls as lists, in the order made.
  (\<open>console.error\<close> in the two \<open>catch\<close> blocks only logs and is left out.)
\<close>

record http_request =
  url :: jsstring
  http_method :: jsstring
  body :: "(jsstring \<times> jsstring) list"

datatype auth_call = Ctx_login jsstring | Ctx_signup

record browser =
  localStorage :: "jsstring \<rightharpoonup> jsstring"
  fetched :: "http_request list"
  navigated :: "jsstring list"
  auth_calls :: "auth_call list"

text \<open>
  What \<open>await fetch(...)\<close> followed by \<open>await res.json()\<close> can produce: \<open>fetch\<close> rejects
  (no connection); or there is a response with its \<open>ok\<close> flag, whose body either fails
  to parse (\<open>None\<close>), or is \<open>null\<close>, or is an object. Of the object the components read
  \<open>message\<close>, \<open>token\<close> and \<open>role\<close>; the server may also send \<open>email\<close>, which no code
  reads. The fields are strings or absent. (A body that is a number, a string or an
  array behaves as an object without these fields.)
\<close>

record response_data =
  data_message :: "jsstring option"
  data_token :: "jsstring option"
  data_role :: "jsstring option"
  data_email :: "jsstring option"

datatype json = Json_null | Json_object response_data

datatype fetch_outcome = Fetch_rejected | Responded bool "json option"

text \<open>
  What a \<open>try\<close> block throws: an \<open>Error\<close> made by the component, with its message, or an
  exception of the runtime (a rejected \<open>fetch\<close>, a body that does not parse, a property
  read on \<open>null\<close>).
\<close>

datatype thrown = Error jsstring | Runtime_exception

text \<open>
  \<open>location.state\<close> of the router: absent, or an object with the optional hints \<open>role\<close>
  and \<open>from\<close>. \<open>opt_field loc f\<close> is \<open>location.state?.f\<close>.
\<close>

record location_state =
  state_role :: "jsstring option"
  state_from :: "jsstring option"

definition opt_field :: "location_state option \<Rightarrow> (location_state \<Rightarrow> jsstring option) \<Rightarrow> jsstring option" where
  "opt_field loc f = (case loc of None \<Rightarrow> None | Some st \<Rightarrow> f st)"

text \<open>\<open>r === "admin" ? "/admin/dashboard" : "/user/dashboard"\<close>, for \<open>r\<close> possibly absent.\<close>

definition role_dashboard :: "jsstring option \<Rightarrow> jsstring" where
  "role_dashboard r =
     (if r = Some (js ''admin'') then js ''/admin/dashboard'' else js ''/user/dashboard'')"

text \<open>
  A mounted form: the state of the component, the browser, and the submissions whose
  \<open>fetch\<close> has not settled yet, each with the values its closure captured.
\<close>

record ('s, 'c) ui =
  component :: 's
  world :: browser
  in_flight :: "'c list"

section \<open>The Login component\<close>

text \<open>
  The state of the component is its four \<open>useState\<close> variables. \<open>error\<close> and \<open>loading\<close>
  exist in both components and are declared once, as the common part of both states.
\<close>

record ui_flags =
  error :: jsstring
  loading :: bool

record login_state = ui_flags +
  email :: jsstring
  password :: jsstring

definition Login_init :: login_state where
  "Login_init = \<lparr>error = js '''', loading = False, email = js '''', password = js ''''\<rparr>"

definition Login_role :: "location_state option \<Rightarrow> jsstring" where
  "Login_role loc = or_else (opt_field loc state_role) (js ''user'')"

definition Login_from :: "location_state option \<Rightarrow> jsstring" where
  "Login_from loc = or_else (opt_field loc state_from) (js ''/'')"

text \<open>The effect that runs after the first render (lines 44-50).\<close>

definition Login_mount_effect :: "browser \<Rightarrow> browser" where
  "Login_mount_effect b =
     (case localStorage b (js ''token'') of
        None \<Rightarrow> b
      | Some token \<Rightarrow>
          if token = [] then b
          else b\<lparr>navigated := navigated b @ [role_dashboard (localStorage b (js ''userRole''))]\<rparr>)"

text \<open>
  What the component returns (lines 104-215), reduced to the parts that depend on state:
  the heading, the alert shown when \<open>error\<close> is truthy, the two controlled inputs and
  the submit button. The form is part of every render.
\<close>

record login_view =
  heading :: jsstring
  alert :: "jsstring option"
  email_input :: jsstring
  password_input :: jsstring
  submit_disabled :: bool
  submit_label :: jsstring

definition Login_render :: "location_state option \<Rightarrow> login_state \<Rightarrow> login_view" where
  "Login_render loc st =
     \<lparr>heading = (if Login_role loc = js ''admin'' then js ''Admin Login'' else js ''User Login''),
      alert = (if error st = [] then None else Some (error st)),
      email_input = email st,
      password_input = password st,
      submit_disabled = loading st,
      submit_label = (if loading st then js ''Logging in...'' else js ''Login'')\<rparr>"

text \<open>
  Mounting: React calls the component with its initial state and commits what it
  returns, then runs the effect.
\<close>

definition Login_mount :: "location_state option \<Rightarrow> browser \<Rightarrow> login_view \<times> browser" where
  "Login_mount loc b = (Login_render loc Login_init, Login_mount_effect b)"

text \<open>
  \<open>handleSubmit\<close> (lines 58-102) runs in two parts. The first part runs to the
  \<open>await fetch(...)\<close>: it either returns at the validation guard or issues the request
  and suspends; the values of \<open>email\<close> and \<open>from\<close> that the rest of the function uses
  are those of the render in which the form was submitted.
\<close>

record closure_base =
  captured_email :: jsstring

record login_closure = closure_base +
  captured_from :: jsstring

definition Login_submit ::
  "location_state option \<Rightarrow> login_state \<Rightarrow> browser \<Rightarrow> login_state \<times> browser \<times> login_closure option" where
  "Login_submit loc st b =
     (if trim (email st) = [] \<or> trim (password st) = []
      then (st\<lparr>error := js ''Email and password are required''\<rparr>, b, None)
      else
        (st\<lparr>error := js '''', loading := True\<rparr>,
         b\<lparr>fetched := fetched b @
              [\<lparr>url = js ''http://localhost:5000/api/auth/login'', http_method = js ''POST'',
                body = [(js ''email'', email st), (js ''password'', password st),
                        (js ''role'', Login_role loc)]\<rparr>]\<rparr>,
         Some \<lparr>captured_email = email st, captured_from = Login_from loc\<rparr>))"

text \<open>
  The second part is the rest of the \<open>try\<close> block (lines 80-94), from the settled
  \<open>fetch\<close> on. It returns what was thrown, if anything, with the browser as the
  statements executed before the throw left it.
\<close>

definition Login_try :: "login_closure \<Rightarrow> fetch_outcome \<Rightarrow> browser \<Rightarrow> thrown option \<times> browser" where
  "Login_try c r b =
     (case r of
        Fetch_rejected \<Rightarrow> (Some Runtime_exception, b)
      | Responded ok parsed \<Rightarrow>
          (case parsed of
             None \<Rightarrow> (Some Runtime_exception, b)
           | Some Json_null \<Rightarrow> (Some Runtime_exception, b)
           | Some (Json_object d) \<Rightarrow>
               if \<not> ok then (Some (Error (or_else (data_message d) (js ''Login failed''))), b)
               else
                 let b = b\<lparr>localStorage := (localStorage b)(js ''token'' \<mapsto> to_String (data_token d))\<rparr>;
                     b = b\<lparr>localStorage := (localStorage b)(js ''userRole'' \<mapsto> to_String (data_role d))\<rparr>;
                     b = b\<lparr>localStorage := (localStorage b)(js ''email'' \<mapsto> captured_email c)\<rparr>;
                     b = b\<lparr>auth_calls := auth_calls b @ [Ctx_login (captured_email c)]\<rparr>;
                     b = b\<lparr>navigated := navigated b @
                           [if captured_from c \<noteq> js ''/'' then captured_from c
                            else role_dashboard (data_role d)]\<rparr>
                 in (None, b)))"

text \<open>The \<open>catch\<close> and \<open>finally\<close> blocks (lines 96-101) after the \<open>try\<close> block.\<close>

definition Login_settle ::
  "login_closure \<Rightarrow> fetch_outcome \<Rightarrow> login_state \<Rightarrow> browser \<Rightarrow> login_state \<times> browser" where
  "Login_settle c r st b =
     (case Login_try c r b of
        (None, b') \<Rightarrow> (st\<lparr>loading := False\<rparr>, b')
      | (Some err, b') \<Rightarrow>
          (st\<lparr>error := js ''An unexpected error occurred. Please try again.'', loading := False\<rparr>,
           b'))"

text \<open>One whole call of \<open>handleSubmit\<close>, with \<open>r\<close> what its \<open>fetch\<close> settles to.\<close>

definition Login_handleSubmit ::
  "location_state option \<Rightarrow> fetch_outcome \<Rightarrow> login_state \<Rightarrow> browser \<Rightarrow> login_state \<times> browser" where
  "Login_handleSubmit loc r st b =
     (case Login_submit loc st b of
        (st', b', None) \<Rightarrow> (st', b')
      | (st', b', Some c) \<Rightarrow> Login_settle c r st' b')"

text \<open>
  The mounted form as a machine of events: the user edits a field, a submit event is
  delivered to the form, a pending \<open>fetch\<close> settles. \<open><form onSubmit={handleSubmit}>\<close>
  runs \<open>handleSubmit\<close> on every submit event, and \<open>handleSubmit\<close> does not read
  \<open>loading\<close>. The only part of the component that reads \<open>loading\<close> to hold a submit
  back is the button's \<open>disabled={loading}\<close> (line 174), which \<open>Login_render\<close> carries.
  A settling \<open>fetch\<close> is taken to resume the oldest suspended call; no statement below
  depends on that order.
\<close>

datatype login_event =
  L_change_email jsstring | L_change_password jsstring | L_submit | L_settle fetch_outcome

definition Login_step ::
  "location_state option \<Rightarrow> login_event \<Rightarrow> (login_state, login_closure) ui \<Rightarrow> (login_state, login_closure) ui" where
  "Login_step loc ev u =
     (case ev of
        L_change_email v \<Rightarrow> u\<lparr>component := (component u)\<lparr>email := v\<rparr>\<rparr>
      | L_change_password v \<Rightarrow> u\<lparr>component := (component u)\<lparr>password := v\<rparr>\<rparr>
      | L_submit \<Rightarrow>
          (case Login_submit loc (component u) (world u) of
             (st', b', None) \<Rightarrow> u\<lparr>component := st', world := b'\<rparr>
           | (st', b', Some c) \<Rightarrow>
               u\<lparr>component := st', world := b', in_flight := in_flight u @ [c]\<rparr>)
      | L_settle r \<Rightarrow>
          (case in_flight u of
             [] \<Rightarrow> u
           | c # cs \<Rightarrow>
               (case Login_settle c r (component u) (world u) of
                  (st', b') \<Rightarrow> \<lparr>component = st', world = b', in_flight = cs\<rparr>)))"

fun Login_run ::
  "location_state option \<Rightarrow> login_event list \<Rightarrow> (login_state, login_closure) ui \<Rightarrow> (login_state, login_closure) ui" where
  "Login_run loc [] u = u"
| "Login_run loc (ev # evs) u = Login_run loc evs (Login_step loc ev u)"

definition Login_start :: "browser \<Rightarrow> (login_state, login_closure) ui" where
  "Login_start b = \<lparr>component = Login_init, world = b, in_flight = []\<rparr>"

text \<open>
  A sequence of events in which every submit is made through the button: at each
  submit event the button rendered from the current state is not disabled. This is a
  condition on what the user and the browser do, not something the handler checks.
\<close>

fun Login_via_button ::
  "location_state option \<Rightarrow> login_event list \<Rightarrow> (login_state, login_closure) ui \<Rightarrow> bool" where
  "Login_via_button loc [] u = True"
| "Login_via_button loc (ev # evs) u =
     ((ev = L_submit \<longrightarrow> \<not> submit_disabled (Login_render loc (component u)))
      \<and> Login_via_button loc evs (Login_step loc ev u))"

text \<open>
  The submit events of a sequence whose input passes validation at the moment they
  arrive, whether or not the form is loading then.
\<close>

definition Login_valid :: "(login_state, login_closure) ui \<Rightarrow> bool" where
  "Login_valid u =
     (trim (email (component u)) \<noteq> [] \<and> trim (password (component u)) \<noteq> [])"

fun Login_valid_submits ::
  "location_state option \<Rightarrow> login_event list \<Rightarrow> (login_state, login_closure) ui \<Rightarrow> nat" where
  "Login_valid_submits loc [] u = 0"
| "Login_valid_submits loc (ev # evs) u =
     (if ev = L_submit \<and> Login_valid u then 1 else 0)
     + Login_valid_submits loc evs (Login_step loc ev u)"

section \<open>Password strength (Signup.evaluatePasswordStrength)\<close>

record password_strength =
  score :: nat
  message :: jsstring
  color :: jsstring

text \<open>
  The function computes the value it hands to \<open>setPasswordStrength\<close>; the model returns
  that value. \<open>!password\<close> holds for the empty string only; the parameter \<open>password\<close>
  is written \<open>pwd\<close>.
\<close>

definition evaluatePasswordStrength :: "jsstring \<Rightarrow> password_strength" where
  "evaluatePasswordStrength pwd =
     (if pwd = [] then \<lparr>score = 0, message = js '''', color = js ''gray''\<rparr>
      else
        let score = 0;
            score = (if length pwd \<ge> 8 then score + 1 else score);
            score = (if length pwd \<ge> 12 then score + 1 else score);
            score = (if rx_class_test upper_AZ pwd then score + 1 else score);
            score = (if rx_class_test digit_09 pwd then score + 1 else score);
            score = (if rx_class_test not_alnum pwd then score + 1 else score)
        in if score < 2 then \<lparr>score = score, message = js ''Weak'', color = js ''red''\<rparr>
           else if score < 4 then \<lparr>score = score, message = js ''Moderate'', color = js ''yellow''\<rparr>
           else \<lparr>score = score, message = js ''Strong'', color = js ''green''\<rparr>)"

text \<open>
  The scoring rule in the words of the specification: one point for each of five
  conditions, and a tier from the total.
\<close>

datatype tier = none | weak | moderate | strong

definition spec_score :: "jsstring \<Rightarrow> nat" where
  "spec_score pw =
     of_bool (length pw \<ge> 8) + of_bool (length pw \<ge> 12)
     + of_bool (list_ex upper_AZ pw) + of_bool (list_ex digit_09 pw)
     + of_bool (list_ex not_alnum pw)"

definition spec_tier :: "jsstring \<Rightarrow> tier" where
  "spec_tier pw =
     (if pw = [] then none
      else if spec_score pw < 2 then weak
      else if spec_score pw < 4 then moderate
      else strong)"

text \<open>The label that the component stores for a tier (\<open>message\<close> of the strength value).\<close>

fun tier_message :: "tier \<Rightarrow> jsstring" where
  "tier_message none = js ''''"
| "tier_message weak = js ''Weak''"
| "tier_message moderate = js ''Moderate''"
| "tier_message strong = js ''Strong''"

section \<open>Signup validation (Signup.handleSubmit, the checks before the request)\<close>

text \<open>
  The object \<open>formData\<close> of the Signup component. From here on \<open>email\<close> and \<open>password\<close>
  name its fields; the variables of the Login component are \<open>login_state.email\<close> and
  \<open>login_state.password\<close>.
\<close>

record form_data =
  fullName :: jsstring
  email :: jsstring
  password :: jsstring
  confirmPassword :: jsstring

text \<open>
  The five guarded \<open>setError(...); return;\<close> statements of \<open>Signup.handleSubmit\<close>, in the
  order of the source: the result is the message passed to \<open>setError\<close> by the guard that
  returns, or \<open>None\<close> when control reaches \<open>setLoading(true)\<close>.
\<close>

definition Signup_validate :: "form_data \<Rightarrow> jsstring option" where
  "Signup_validate fd =
     (if trim (fullName fd) = [] then Some (js ''Full name is required'')
      else if trim (email fd) = [] then Some (js ''Email is required'')
      else if \<not> emailRegex_test (email fd) then Some (js ''Please enter a valid email address'')
      else if password fd \<noteq> confirmPassword fd then Some (js ''Passwords do not match'')
      else if length (password fd) < 6 then Some (js ''Password must be at least 6 characters'')
      else None)"

text \<open>
  The validation rule in the words of the specification: an ordered list of checks, each
  a failure condition with its error, of which the first failing one is reported.
\<close>

datatype validation_error =
  EmptyField_fullName | EmptyField_email | InvalidEmailFormat | PasswordMismatch | PasswordTooShort

definition signup_checks :: "form_data \<Rightarrow> (bool \<times> validation_error) list" where
  "signup_checks fd =
     [(trim (fullName fd) = [], EmptyField_fullName),
      (trim (email fd) = [], EmptyField_email),
      (\<not> emailRegex_test (email fd), InvalidEmailFormat),
      (password fd \<noteq> confirmPassword fd, PasswordMismatch),
      (length (password fd) < 6, PasswordTooShort)]"

fun first_failure :: "(bool \<times> 'e) list \<Rightarrow> 'e option" where
  "first_failure [] = None"
| "first_failure ((fails, e) # cs) = (if fails then Some e else first_failure cs)"

fun error_message :: "validation_error \<Rightarrow> jsstring" where
  "error_message EmptyField_fullName = js ''Full name is required''"
| "error_message EmptyField_email = js ''Email is required''"
| "error_message InvalidEmailFormat = js ''Please enter a valid email address''"
| "error_message PasswordMismatch = js ''Passwords do not match''"
| "error_message PasswordTooShort = js ''Password must be at least 6 characters''"

section \<open>The Signup component\<close>

record signup_state = ui_flags +
  formData :: form_data
  passwordStrength :: password_strength
  role :: jsstring

definition Signup_init :: signup_state where
  "Signup_init =
     \<lparr>error = js '''', loading = False,
      formData = \<lparr>fullName = js '''', email = js '''', password = js '''', confirmPassword = js ''''\<rparr>,
      passwordStrength = \<lparr>score = 0, message = js '''', color = js ''gray''\<rparr>,
      role = js ''user''\<rparr>"

text \<open>The first effect (lines 271-273): \<open>location.state?.role && setRole(location.state?.role)\<close>.\<close>

definition Signup_role_effect :: "location_state option \<Rightarrow> signup_state \<Rightarrow> signup_state" where
  "Signup_role_effect loc st =
     (case opt_field loc state_role of
        None \<Rightarrow> st
      | Some r \<Rightarrow> if r = [] then st else st\<lparr>role := r\<rparr>)"

text \<open>The second effect (lines 279-285), the same code as in Login.\<close>

definition Signup_mount_effect :: "browser \<Rightarrow> browser" where
  "Signup_mount_effect b =
     (case localStorage b (js ''token'') of
        None \<Rightarrow> b
      | Some token \<Rightarrow>
          if token = [] then b
          else b\<lparr>navigated := navigated b @ [role_dashboard (localStorage b (js ''userRole''))]\<rparr>)"

text \<open>
  \<open>handleChange\<close> (lines 292-304). The \<open>name\<close> of the event target is the name of one of
  the four inputs of the form.
\<close>

datatype field_name = F_fullName | F_email | F_password | F_confirmPassword

fun set_field :: "field_name \<Rightarrow> jsstring \<Rightarrow> form_data \<Rightarrow> form_data" where
  "set_field F_fullName v fd = fd\<lparr>fullName := v\<rparr>"
| "set_field F_email v fd = fd\<lparr>email := v\<rparr>"
| "set_field F_password v fd = fd\<lparr>password := v\<rparr>"
| "set_field F_confirmPassword v fd = fd\<lparr>confirmPassword := v\<rparr>"

definition Signup_handleChange :: "field_name \<Rightarrow> jsstring \<Rightarrow> signup_state \<Rightarrow> signup_state" where
  "Signup_handleChange name v st =
     (let st = st\<lparr>formData := set_field name v (formData st)\<rparr>
      in if name = F_password then st\<lparr>passwordStrength := evaluatePasswordStrength v\<rparr> else st)"

text \<open>
  What the component returns (lines 418-614), reduced to the parts that depend on state;
  the strength indicator is rendered when \<open>formData.password\<close> is truthy (the width of
  its bar, a floating-point percentage, is left out). The form is part of every render.
\<close>

record strength_view =
  bar_class :: jsstring
  label_class :: jsstring
  label_text :: jsstring

record signup_view = login_view +
  fullName_input :: jsstring
  confirmPassword_input :: jsstring
  strength_indicator :: "strength_view option"
  role_select :: jsstring

definition Signup_render :: "signup_state \<Rightarrow> signup_view" where
  "Signup_render st =
     \<lparr>heading = (if role st = js ''admin'' then js ''Admin Registration'' else js ''User Registration''),
      alert = (if error st = [] then None else Some (error st)),
      email_input = email (formData st),
      password_input = password (formData st),
      submit_disabled = loading st,
      submit_label = (if loading st then js ''Creating Account...'' else js ''Sign Up''),
      fullName_input = fullName (formData st),
      confirmPassword_input = confirmPassword (formData st),
      strength_indicator =
        (if password (formData st) = [] then None
         else Some
           \<lparr>bar_class =
              (if color (passwordStrength st) = js ''red'' then js ''bg-red-500''
               else if color (passwordStrength st) = js ''yellow'' then js ''bg-yellow-500''
               else if color (passwordStrength st) = js ''green'' then js ''bg-green-500''
               else js ''bg-gray-300''),
            label_class =
              (if color (passwordStrength st) = js ''red'' then js ''text-red-500''
               else if color (passwordStrength st) = js ''yellow'' then js ''text-yellow-600''
               else if color (passwordStrength st) = js ''green'' then js ''text-green-500''
               else js ''text-gray-500''),
            label_text = message (passwordStrength st)\<rparr>),
      role_select = role st\<rparr>"

definition Signup_mount :: "location_state option \<Rightarrow> browser \<Rightarrow> signup_view \<times> signup_state \<times> browser" where
  "Signup_mount loc b =
     (Signup_render Signup_init, Signup_role_effect loc Signup_init, Signup_mount_effect b)"

text \<open>
  \<open>handleSubmit\<close> (lines 352-416), first part: to the validation guard that returns, or
  to the \<open>await fetch(...)\<close>. The rest of the function uses \<open>email\<close> and \<open>role\<close> of the
  render in which the form was submitted.
\<close>

record signup_closure = closure_base +
  captured_role :: jsstring

definition Signup_submit ::
  "signup_state \<Rightarrow> browser \<Rightarrow> signup_state \<times> browser \<times> signup_closure option" where
  "Signup_submit st b =
     (let st' = st\<lparr>error := js ''''\<rparr>
      in case Signup_validate (formData st) of
           Some msg \<Rightarrow> (st'\<lparr>error := msg\<rparr>, b, None)
         | None \<Rightarrow>
             (st'\<lparr>loading := True\<rparr>,
              b\<lparr>fetched := fetched b @
                   [\<lparr>url = js ''http://localhost:5000/api/auth/register'', http_method = js ''POST'',
                     body = [(js ''fullName'', fullName (formData st)), (js ''email'', email (formData st)),
                             (js ''password'', password (formData st)), (js ''role'', role st)]\<rparr>]\<rparr>,
              Some \<lparr>captured_email = email (formData st), captured_role = role st\<rparr>))"

text \<open>
  Second part: the rest of the \<open>try\<close> block (lines 397-409). \<open>signup()\<close> is called before
  the body's \<open>token\<close> is read, so with an \<open>ok\<close> response whose body is \<open>null\<close> the call
  has been made when the read throws.
\<close>

definition Signup_try :: "signup_closure \<Rightarrow> fetch_outcome \<Rightarrow> browser \<Rightarrow> thrown option \<times> browser" where
  "Signup_try c r b =
     (case r of
        Fetch_rejected \<Rightarrow> (Some Runtime_exception, b)
      | Responded ok parsed \<Rightarrow>
          (case parsed of
             None \<Rightarrow> (Some Runtime_exception, b)
           | Some Json_null \<Rightarrow>
               if \<not> ok then (Some Runtime_exception, b)
               else (Some Runtime_exception, b\<lparr>auth_calls := auth_calls b @ [Ctx_signup]\<rparr>)
           | Some (Json_object d) \<Rightarrow>
               if \<not> ok then (Some (Error (or_else (data_message d) (js ''Registration failed''))), b)
               else
                 let b = b\<lparr>auth_calls := auth_calls b @ [Ctx_signup]\<rparr>;
                     b = b\<lparr>localStorage := (localStorage b)(js ''token'' \<mapsto> to_String (data_token d))\<rparr>;
                     b = b\<lparr>localStorage := (localStorage b)(js ''userRole'' \<mapsto> captured_role c)\<rparr>;
                     b = b\<lparr>localStorage := (localStorage b)(js ''email'' \<mapsto> captured_email c)\<rparr>;
                     b = b\<lparr>navigated := navigated b @ [role_dashboard (Some (captured_role c))]\<rparr>
                 in (None, b)))"

text \<open>The \<open>catch\<close> and \<open>finally\<close> blocks (lines 410-415).\<close>

definition Signup_settle ::
  "signup_closure \<Rightarrow> fetch_outcome \<Rightarrow> signup_state \<Rightarrow> browser \<Rightarrow> signup_state \<times> browser" where
  "Signup_settle c r st b =
     (case Signup_try c r b of
        (None, b') \<Rightarrow> (st\<lparr>loading := False\<rparr>, b')
      | (Some err, b') \<Rightarrow>
          (st\<lparr>error := js ''Failed to create an account. Please try again.'', loading := False\<rparr>,
           b'))"

definition Signup_handleSubmit ::
  "fetch_outcome \<Rightarrow> signup_state \<Rightarrow> browser \<Rightarrow> signup_state \<times> browser" where
  "Signup_handleSubmit r st b =
     (case Signup_submit st b of
        (st', b', None) \<Rightarrow> (st', b')
      | (st', b', Some c) \<Rightarrow> Signup_settle c r st' b')"

text \<open>
  The mounted form as a machine of events, as for Login: \<open><form onSubmit={handleSubmit}>\<close>
  runs the handler on every submit event, the handler does not read \<open>loading\<close>, and the
  button carries \<open>disabled={loading}\<close> (line 568).
\<close>

datatype signup_event =
  S_change field_name jsstring | S_set_role jsstring | S_submit | S_settle fetch_outcome

definition Signup_step ::
  "signup_event \<Rightarrow> (signup_state, signup_closure) ui \<Rightarrow> (signup_state, signup_closure) ui" where
  "Signup_step ev u =
     (case ev of
        S_change name v \<Rightarrow> u\<lparr>component := Signup_handleChange name v (component u)\<rparr>
      | S_set_role v \<Rightarrow> u\<lparr>component := (component u)\<lparr>role := v\<rparr>\<rparr>
      | S_submit \<Rightarrow>
          (case Signup_submit (component u) (world u) of
             (st', b', None) \<Rightarrow> u\<lparr>component := st', world := b'\<rparr>
           | (st', b', Some c) \<Rightarrow>
               u\<lparr>component := st', world := b', in_flight := in_flight u @ [c]\<rparr>)
      | S_settle r \<Rightarrow>
          (case in_flight u of
             [] \<Rightarrow> u
           | c # cs \<Rightarrow>
               (case Signup_settle c r (component u) (world u) of
                  (st', b') \<Rightarrow> \<lparr>component = st', world = b', in_flight = cs\<rparr>)))"

fun Signup_run ::
  "signup_event list \<Rightarrow> (signup_state, signup_closure) ui \<Rightarrow> (signup_state, signup_closure) ui" where
  "Signup_run [] u = u"
| "Signup_run (ev # evs) u = Signup_run evs (Signup_step ev u)"

definition Signup_start :: "location_state option \<Rightarrow> browser \<Rightarrow> (signup_state, signup_closure) ui" where
  "Signup_start loc b = \<lparr>component = Signup_role_effect loc Signup_init, world = b, in_flight = []\<rparr>"

fun Signup_via_button :: "signup_event list \<Rightarrow> (signup_state, signup_closure) ui \<Rightarrow> bool" where
  "Signup_via_button [] u = True"
| "Signup_via_button (ev # evs) u =
     ((ev = S_submit \<longrightarrow> \<not> submit_disabled (Signup_render (component u)))
      \<and> Signup_via_button evs (Signup_step ev u))"

definition Signup_valid :: "(signup_state, signup_closure) ui \<Rightarrow> bool" where
  "Signup_valid u = (Signup_validate (formData (component u)) = None)"

fun Signup_valid_submits :: "signup_event list \<Rightarrow> (signup_state, signup_closure) ui \<Rightarrow> nat" where
  "Signup_valid_submits [] u = 0"
| "Signup_valid_submits (ev # evs) u =
     (if ev = S_submit \<and> Signup_valid u then 1 else 0) + Signup_valid_submits evs (Signup_step ev u)"

section \<open>Vocabulary of the specification for a submission attempt\<close>

text \<open>
  The specification sorts the end of an attempt into a validation error, a rejection by
  the server (a response that is not \<open>ok\<close> and carries a body with the message), a
  transport error (no response, or a body that cannot be used) and success.
\<close>

datatype attempt_outcome = Validation_failed | Rejected | Transport_error | Succeeded

fun fetch_class :: "fetch_outcome \<Rightarrow> attempt_outcome" where
  "fetch_class Fetch_rejected = Transport_error"
| "fetch_class (Responded ok None) = Transport_error"
| "fetch_class (Responded ok (Some Json_null)) = Transport_error"
| "fetch_class (Responded False (Some (Json_object d))) = Rejected"
| "fetch_class (Responded True (Some (Json_object d))) = Succeeded"

definition Login_outcome :: "login_state \<Rightarrow> fetch_outcome \<Rightarrow> attempt_outcome" where
  "Login_outcome st r =
     (if trim (login_state.email st) = [] \<or> trim (login_state.password st) = []
      then Validation_failed else fetch_class r)"

definition Signup_outcome :: "signup_state \<Rightarrow> fetch_outcome \<Rightarrow> attempt_outcome" where
  "Signup_outcome st r =
     (case Signup_validate (formData st) of Some msg \<Rightarrow> Validation_failed | None \<Rightarrow> fetch_class r)"

text \<open>
  The destination after success in the words of the specification: the intended
  destination when it is present and not the root path, else the dashboard of the role.
\<close>

definition spec_destination :: "jsstring option \<Rightarrow> jsstring option \<Rightarrow> jsstring" where
  "spec_destination intended r =
     (case intended of
        None \<Rightarrow> role_dashboard r
      | Some p \<Rightarrow> if p \<noteq> [] \<and> p \<noteq> js ''/'' then p else role_dashboard r)"

text \<open>
  The invariant of a mounted form: at most one submission is in flight, and the form is
  loading exactly while one is.
\<close>

definition ui_inv :: "('a ui_flags_scheme, 'c) ui \<Rightarrow> bool" where
  "ui_inv u = (length (in_flight u) \<le> 1 \<and> loading (component u) = (in_flight u \<noteq> []))"

text \<open>A browser with empty storage in which nothing has been called yet.\<close>

definition fresh_browser :: browser where
  "fresh_browser = \<lparr>localStorage = Map.empty, fetched = [], navigated = [], auth_calls = []\<rparr>"

section \<open>Sample inputs\<close>

text \<open>
  Concrete values on which the theorems below are evaluated: a filled login form, a
  filled signup form with the role "admin" chosen, a filled signup form whose password
  is six blanks, the body of a successful response, the response of a rejection, a
  navigation state with the intended destination "/orders", and a browser whose storage
  holds a session.
\<close>

definition sample_login_state :: login_state where
  "sample_login_state =
     \<lparr>error = js '''', loading = False, login_state.email = js ''a@b.c'',
      login_state.password = js ''secret''\<rparr>"

definition sample_signup_state :: signup_state where
  "sample_signup_state =
     \<lparr>error = js '''', loading = False,
      formData = \<lparr>fullName = js ''Ann'', email = js ''a@b.c'', password = js ''secret1'',
                  confirmPassword = js ''secret1''\<rparr>,
      passwordStrength = \<lparr>score = 1, message = js ''Weak'', color = js ''red''\<rparr>,
      role = js ''admin''\<rparr>"

definition blank_password_signup :: signup_state where
  "blank_password_signup =
     sample_signup_state
       \<lparr>formData := (formData sample_signup_state)
          \<lparr>password := js ''      '', confirmPassword := js ''      ''\<rparr>\<rparr>"

definition sample_data :: response_data where
  "sample_data =
     \<lparr>data_message = None, data_token = Some (js ''abc''), data_role = Some (js ''user''),
      data_email = Some (js ''x@y.z'')\<rparr>"

definition rejected_response :: fetch_outcome where
  "rejected_response =
     Responded False (Some (Json_object
       \<lparr>data_message = Some (js ''Invalid credentials''), data_token = None,
        data_role = None, data_email = None\<rparr>))"

definition orders_location :: "location_state option" where
  "orders_location = Some \<lparr>state_role = None, state_from = Some (js ''/orders'')\<rparr>"

definition session_browser :: browser where
  "session_browser =
     \<lparr>localStorage = [js ''token'' \<mapsto> js ''abc'', js ''userRole'' \<mapsto> js ''admin''],
      fetched = [], navigated = [], auth_calls = []\<rparr>"

text \<open>The events of a user who fills a form with the sample values and submits it.\<close>

definition login_fill_and_submit :: "login_event list" where
  "login_fill_and_submit =
     [L_change_email (js ''a@b.c''), L_change_password (js ''secret''), L_submit]"

definition signup_fill_and_submit :: "signup_event list" where
  "signup_fill_and_submit =
     [S_change F_fullName (js ''Ann''), S_change F_email (js ''a@b.c''),
      S_change F_password (js ''secret1''), S_change F_confirmPassword (js ''secret1''),
      S_submit]"

section \<open>Properties of the string functions\<close>

lemma rx_class_test_list_ex: "rx_class_test p s = list_ex p s"
  by (induction s) simp_all

lemma dropWhile_all_space: "list_all is_js_space s \<Longrightarrow> dropWhile is_js_space s = []"
  by (induction s) simp_all

lemma trim_all_space: "list_all is_js_space s \<Longrightarrow> trim s = []"
  by (simp add: trim_def dropWhile_all_space)

section \<open>Password strength\<close>

text \<open>
  C6, as the code has it. For every password, \<open>evaluatePasswordStrength\<close> yields the
  score that counts the five conditions (length at least 8, length at least 12, an
  uppercase letter A-Z, a digit 0-9, a character outside A-Z, a-z, 0-9) and the label of
  the tier: weak below 2, moderate below 4, strong from 4, and score 0 with the empty
  label for the empty password. On the examples: the empty password scores 0 with no
  tier, "abcdefgh" scores 1 and is weak, and "Abcdefgh1!" (ten characters, so only the
  first length condition holds) scores 4 and is strong.
\<close>

theorem evaluatePasswordStrength_spec:
  "score (evaluatePasswordStrength pw) = spec_score pw
   \<and> message (evaluatePasswordStrength pw) = tier_message (spec_tier pw)
   \<and> score (evaluatePasswordStrength []) = 0
   \<and> message (evaluatePasswordStrength []) = tier_message none
   \<and> score (evaluatePasswordStrength (js ''abcdefgh'')) = 1
   \<and> message (evaluatePasswordStrength (js ''abcdefgh'')) = tier_message weak
   \<and> score (evaluatePasswordStrength (js ''Abcdefgh1!'')) = 4
   \<and> message (evaluatePasswordStrength (js ''Abcdefgh1!'')) = tier_message strong"
proof -
  have general: "score (evaluatePasswordStrength pw) = spec_score pw
      \<and> message (evaluatePasswordStrength pw) = tier_message (spec_tier pw)"
    by (simp add: evaluatePasswordStrength_def spec_score_def spec_tier_def
        rx_class_test_list_ex Let_def)
  have ex0: "score (evaluatePasswordStrength []) = 0
      \<and> message (evaluatePasswordStrength []) = tier_message none"
    by (simp add: evaluatePasswordStrength_def)
  have ex1: "score (evaluatePasswordStrength (js ''abcdefgh'')) = 1
      \<and> message (evaluatePasswordStrength (js ''abcdefgh'')) = tier_message weak"
    by (simp add: evaluatePasswordStrength_def js_def upper_AZ_def lower_az_def digit_09_def
        not_alnum_def Let_def)
  have ex2: "score (evaluatePasswordStrength (js ''Abcdefgh1!'')) = 4
      \<and> message (evaluatePasswordStrength (js ''Abcdefgh1!'')) = tier_message strong"
    by (simp add: evaluatePasswordStrength_def js_def upper_AZ_def lower_az_def digit_09_def
        not_alnum_def Let_def)
  show ?thesis
    using general ex0 ex1 ex2 by simp
qed

text \<open>
  C6, as the specification states it, fails on its third example: the score of
  "Abcdefgh1!" is not 5, and no password of fewer than 12 characters scores 5.
\<close>

theorem evaluatePasswordStrength_counterexample:
  "score (evaluatePasswordStrength (js ''Abcdefgh1!'')) \<noteq> 5"
  by (simp add: evaluatePasswordStrength_def js_def upper_AZ_def lower_az_def digit_09_def
      not_alnum_def Let_def)

section \<open>Order of the signup checks\<close>

text \<open>
  C5. The signup validation reports the first failing check in the order full name
  empty, email empty, email format, password mismatch, password shorter than 6, and
  nothing else: the message it sets is the message of the first failure in that list,
  it sets no message exactly when no check fails, and after the first part of
  \<open>handleSubmit\<close> the one \<open>error\<close> of the form is that message (or empty).
\<close>

theorem Signup_validate_first_failure:
  "Signup_validate fd = map_option error_message (first_failure (signup_checks fd))
   \<and> error (fst (Signup_submit st b))
       = (case first_failure (signup_checks (formData st)) of
            None \<Rightarrow> js '''' | Some e \<Rightarrow> error_message e)"
proof -
  have v: "Signup_validate x = map_option error_message (first_failure (signup_checks x))" for x
    by (simp add: Signup_validate_def signup_checks_def)
  show ?thesis
    by (cases "first_failure (signup_checks (formData st))") (simp_all add: v Signup_submit_def)
qed

section \<open>Re-entrancy of the submit handler\<close>

text \<open>
  Settling a request always clears \<open>loading\<close> and never issues a request.
\<close>

lemma Login_settle_loading: "\<not> loading (fst (Login_settle c r st b))"
  by (simp add: Login_settle_def split: prod.splits option.splits)

lemma Login_settle_fetched: "fetched (snd (Login_settle c r st b)) = fetched b"
  by (simp add: Login_settle_def Login_try_def Let_def
      split: prod.splits option.splits fetch_outcome.splits json.splits)

lemma Signup_settle_loading: "\<not> loading (fst (Signup_settle c r st b))"
  by (simp add: Signup_settle_def split: prod.splits option.splits)

lemma Signup_settle_fetched: "fetched (snd (Signup_settle c r st b)) = fetched b"
  by (simp add: Signup_settle_def Signup_try_def Let_def
      split: prod.splits option.splits fetch_outcome.splits json.splits)

text \<open>
  A step keeps the invariant when a submit, if the event is one, comes through the
  enabled button.
\<close>

lemma Login_step_inv:
  assumes inv: "ui_inv u"
    and button: "ev = L_submit \<longrightarrow> \<not> submit_disabled (Login_render loc (component u))"
  shows "ui_inv (Login_step loc ev u)"
proof (cases ev)
  case L_submit
  then show ?thesis
    using inv button
    by (auto simp: ui_inv_def Login_step_def Login_render_def Login_submit_def)
next
  case (L_settle r)
  show ?thesis
  proof (cases "in_flight u")
    case Nil
    then show ?thesis using inv L_settle by (simp add: Login_step_def)
  next
    case (Cons c cs)
    with inv have "cs = []" by (simp add: ui_inv_def)
    then show ?thesis
      using Cons L_settle Login_settle_loading [of c r "component u" "world u"]
      by (auto simp: Login_step_def ui_inv_def split: prod.splits)
  qed
next
  case (L_change_email v)
  then show ?thesis using inv by (simp add: ui_inv_def Login_step_def)
next
  case (L_change_password v)
  then show ?thesis using inv by (simp add: ui_inv_def Login_step_def)
qed

lemma Login_run_inv:
  "ui_inv u \<Longrightarrow> Login_via_button loc evs u \<Longrightarrow> ui_inv (Login_run loc evs u)"
  by (induction evs arbitrary: u) (simp_all add: Login_step_inv)

lemma Login_step_fetched:
  "length (fetched (world (Login_step loc ev u))) =
     length (fetched (world u)) + (if ev = L_submit \<and> Login_valid u then 1 else 0)"
proof (cases ev)
  case (L_settle r)
  then show ?thesis
    using Login_settle_fetched [of _ r "component u" "world u"]
    by (simp add: Login_step_def split: list.splits prod.splits) (metis snd_conv)
qed (simp_all add: Login_step_def Login_submit_def Login_valid_def)

lemma Login_run_fetched:
  "length (fetched (world (Login_run loc evs u))) =
     length (fetched (world u)) + Login_valid_submits loc evs u"
  by (induction evs arbitrary: u) (simp_all add: Login_step_fetched)

lemma Signup_step_inv:
  assumes inv: "ui_inv u"
    and button: "ev = S_submit \<longrightarrow> \<not> submit_disabled (Signup_render (component u))"
  shows "ui_inv (Signup_step ev u)"
proof (cases ev)
  case S_submit
  then show ?thesis
    using inv button
    by (auto simp: ui_inv_def Signup_step_def Signup_render_def Signup_submit_def Let_def
        split: option.splits)
next
  case (S_settle r)
  show ?thesis
  proof (cases "in_flight u")
    case Nil
    then show ?thesis using inv S_settle by (simp add: Signup_step_def)
  next
    case (Cons c cs)
    with inv have "cs = []" by (simp add: ui_inv_def)
    then show ?thesis
      using Cons S_settle Signup_settle_loading [of c r "component u" "world u"]
      by (auto simp: Signup_step_def ui_inv_def split: prod.splits)
  qed
next
  case (S_change name v)
  then show ?thesis
    using inv by (simp add: ui_inv_def Signup_step_def Signup_handleChange_def Let_def)
next
  case (S_set_role v)
  then show ?thesis
    using inv by (simp add: ui_inv_def Signup_step_def)
qed

lemma Signup_run_inv:
  "ui_inv u \<Longrightarrow> Signup_via_button evs u \<Longrightarrow> ui_inv (Signup_run evs u)"
  by (induction evs arbitrary: u) (simp_all add: Signup_step_inv)

lemma Signup_step_fetched:
  "length (fetched (world (Signup_step ev u))) =
     length (fetched (world u)) + (if ev = S_submit \<and> Signup_valid u then 1 else 0)"
proof (cases ev)
  case (S_settle r)
  then show ?thesis
    using Signup_settle_fetched [of _ r "component u" "world u"]
    by (simp add: Signup_step_def split: list.splits prod.splits) (metis snd_conv)
qed (simp_all add: Signup_step_def Signup_submit_def Signup_valid_def Let_def
      split: option.splits)

lemma Signup_run_fetched:
  "length (fetched (world (Signup_run evs u))) =
     length (fetched (world u)) + Signup_valid_submits evs u"
  by (induction evs arbitrary: u) (simp_all add: Signup_step_fetched)

lemma Login_start_inv: "ui_inv (Login_start b)"
  by (simp add: ui_inv_def Login_start_def Login_init_def)

lemma Signup_start_inv: "ui_inv (Signup_start loc b)"
  by (simp add: ui_inv_def Signup_start_def Signup_init_def Signup_role_effect_def
      split: option.splits)

lemma Login_submit_in_flight:
  "Login_valid u \<Longrightarrow>
   length (in_flight (Login_step loc L_submit u)) = length (in_flight u) + 1"
  by (simp add: Login_step_def Login_submit_def Login_valid_def)

lemma Signup_submit_in_flight:
  "Signup_valid u \<Longrightarrow>
   length (in_flight (Signup_step S_submit u)) = length (in_flight u) + 1"
  by (simp add: Signup_step_def Signup_submit_def Signup_valid_def Let_def)

text \<open>
  C2, as the code has it. In the Login and the Signup form the submit button is disabled
  exactly while \<open>loading\<close> is true, and that is the only guard. Along every sequence of
  events from the mounted form in which each submit is made while the button is enabled,
  at most one request is in flight and the form is loading exactly while one is. The
  handler itself does not look at \<open>loading\<close>: along every sequence of events the
  number of requests issued is the number of submit events whose input passes
  validation, and a submit event with valid input issues one more request and adds one
  more pending call in whatever state it arrives, also while the form is loading.
\<close>

theorem submit_guard_is_the_button:
  "submit_disabled (Login_render loc st) = loading st
   \<and> submit_disabled (Signup_render st') = loading st'
   \<and> (Login_via_button loc evs (Login_start b) \<longrightarrow>
        length (in_flight (Login_run loc evs (Login_start b))) \<le> 1
        \<and> loading (component (Login_run loc evs (Login_start b)))
            = (in_flight (Login_run loc evs (Login_start b)) \<noteq> []))
   \<and> length (fetched (world (Login_run loc evs (Login_start b))))
       = length (fetched b) + Login_valid_submits loc evs (Login_start b)
   \<and> (Signup_via_button evs' (Signup_start loc b) \<longrightarrow>
        length (in_flight (Signup_run evs' (Signup_start loc b))) \<le> 1
        \<and> loading (component (Signup_run evs' (Signup_start loc b)))
            = (in_flight (Signup_run evs' (Signup_start loc b)) \<noteq> []))
   \<and> length (fetched (world (Signup_run evs' (Signup_start loc b))))
       = length (fetched b) + Signup_valid_submits evs' (Signup_start loc b)
   \<and> (Login_valid u \<longrightarrow>
        length (fetched (world (Login_step loc L_submit u))) = length (fetched (world u)) + 1
        \<and> length (in_flight (Login_step loc L_submit u)) = length (in_flight u) + 1)
   \<and> (Signup_valid v \<longrightarrow>
        length (fetched (world (Signup_step S_submit v))) = length (fetched (world v)) + 1
        \<and> length (in_flight (Signup_step S_submit v)) = length (in_flight v) + 1)"
proof -
  have l0: "submit_disabled (Login_render loc st) = loading st"
    by (simp add: Login_render_def)
  have s0: "submit_disabled (Signup_render st') = loading st'"
    by (simp add: Signup_render_def)
  have l1: "ui_inv (Login_run loc evs (Login_start b))"
    if "Login_via_button loc evs (Login_start b)"
    by (rule Login_run_inv [OF Login_start_inv that])
  have s1: "ui_inv (Signup_run evs' (Signup_start loc b))"
    if "Signup_via_button evs' (Signup_start loc b)"
    by (rule Signup_run_inv [OF Signup_start_inv that])
  have l2: "length (fetched (world (Login_run loc evs (Login_start b))))
       = length (fetched b) + Login_valid_submits loc evs (Login_start b)"
    using Login_run_fetched [of loc evs "Login_start b"] by (simp add: Login_start_def)
  have s2: "length (fetched (world (Signup_run evs' (Signup_start loc b))))
       = length (fetched b) + Signup_valid_submits evs' (Signup_start loc b)"
    using Signup_run_fetched [of evs' "Signup_start loc b"] by (simp add: Signup_start_def)
  have l3: "length (fetched (world (Login_step loc L_submit u))) = length (fetched (world u)) + 1
        \<and> length (in_flight (Login_step loc L_submit u)) = length (in_flight u) + 1"
    if "Login_valid u"
    using that Login_step_fetched [of loc L_submit u] by (simp add: Login_submit_in_flight)
  have s3: "length (fetched (world (Signup_step S_submit v))) = length (fetched (world v)) + 1
        \<and> length (in_flight (Signup_step S_submit v)) = length (in_flight v) + 1"
    if "Signup_valid v"
    using that Signup_step_fetched [of S_submit v] by (simp add: Signup_submit_in_flight)
  show ?thesis
    using l0 s0 l1 s1 l2 s2 l3 s3 unfolding ui_inv_def by blast
qed

section \<open>Rules for evaluating the model on concrete inputs\<close>

lemmas js_eval = js_def trim_def is_js_space_def or_else_def opt_field_def to_String_def
  role_dashboard_def not_space_at_def emailRegex_test_def

lemmas login_eval = Login_handleSubmit_def Login_submit_def Login_settle_def Login_try_def
  Login_role_def Login_from_def Login_init_def Login_render_def Login_step_def Login_start_def
  fresh_browser_def Let_def

lemmas signup_eval = Signup_handleSubmit_def Signup_submit_def Signup_settle_def Signup_try_def
  Signup_init_def Signup_render_def Signup_step_def Signup_start_def Signup_validate_def
  Signup_role_effect_def Signup_handleChange_def fresh_browser_def Let_def

lemmas sample_eval = sample_login_state_def sample_signup_state_def blank_password_signup_def
  sample_data_def rejected_response_def orders_location_def session_browser_def

text \<open>The sample inputs pass the validation of their form.\<close>

lemma sample_login_valid:
  "trim (login_state.email sample_login_state) \<noteq> []
   \<and> trim (login_state.password sample_login_state) \<noteq> []"
  by (simp add: sample_eval js_eval)

lemma sample_signup_valid: "Signup_validate (formData sample_signup_state) = None"
  by (simp add: sample_eval js_eval Signup_validate_def)

text \<open>
  C2, as the specification states it, fails: after the user has filled the form and
  submitted, the form is loading and one request is in flight; a second submit event
  then runs the handler again, so the form is not left as it was, and two requests have
  been issued and are in flight. The handler called directly in a loading state issues
  its request as well.
\<close>

theorem resubmit_while_loading_counterexample:
  "loading (component (Login_run None login_fill_and_submit (Login_start fresh_browser)))
   \<and> length (fetched (world (Login_run None login_fill_and_submit (Login_start fresh_browser)))) = 1
   \<and> length (fetched (world (Login_step None L_submit
        (Login_run None login_fill_and_submit (Login_start fresh_browser))))) = 2
   \<and> length (in_flight (Login_step None L_submit
        (Login_run None login_fill_and_submit (Login_start fresh_browser)))) = 2
   \<and> Login_step None L_submit (Login_run None login_fill_and_submit (Login_start fresh_browser))
      \<noteq> Login_run None login_fill_and_submit (Login_start fresh_browser)
   \<and> length (fetched (fst (snd (Login_submit None (sample_login_state\<lparr>loading := True\<rparr>)
        fresh_browser)))) = 1
   \<and> loading (component (Signup_run signup_fill_and_submit (Signup_start None fresh_browser)))
   \<and> length (fetched (world (Signup_run signup_fill_and_submit (Signup_start None fresh_browser)))) = 1
   \<and> length (fetched (world (Signup_step S_submit
        (Signup_run signup_fill_and_submit (Signup_start None fresh_browser))))) = 2
   \<and> length (in_flight (Signup_step S_submit
        (Signup_run signup_fill_and_submit (Signup_start None fresh_browser)))) = 2
   \<and> Signup_step S_submit (Signup_run signup_fill_and_submit (Signup_start None fresh_browser))
      \<noteq> Signup_run signup_fill_and_submit (Signup_start None fresh_browser)
   \<and> length (fetched (fst (snd (Signup_submit (sample_signup_state\<lparr>loading := True\<rparr>)
        fresh_browser)))) = 1"
proof -
  have l: "Login_run None login_fill_and_submit (Login_start fresh_browser)
      = \<lparr>component = \<lparr>error = js '''', loading = True, login_state.email = js ''a@b.c'',
                       login_state.password = js ''secret''\<rparr>,
         world = fresh_browser
           \<lparr>fetched := [\<lparr>url = js ''http://localhost:5000/api/auth/login'', http_method = js ''POST'',
                body = [(js ''email'', js ''a@b.c''), (js ''password'', js ''secret''),
                        (js ''role'', js ''user'')]\<rparr>]\<rparr>,
         in_flight = [\<lparr>captured_email = js ''a@b.c'', captured_from = js ''/''\<rparr>]\<rparr>"
    by (simp add: login_fill_and_submit_def login_eval js_eval)
  have s: "Signup_run signup_fill_and_submit (Signup_start None fresh_browser)
      = \<lparr>component = \<lparr>error = js '''', loading = True,
           formData = \<lparr>fullName = js ''Ann'', email = js ''a@b.c'', password = js ''secret1'',
                       confirmPassword = js ''secret1''\<rparr>,
           passwordStrength = \<lparr>score = 1, message = js ''Weak'', color = js ''red''\<rparr>,
           role = js ''user''\<rparr>,
         world = fresh_browser
           \<lparr>fetched := [\<lparr>url = js ''http://localhost:5000/api/auth/register'', http_method = js ''POST'',
                body = [(js ''fullName'', js ''Ann''), (js ''email'', js ''a@b.c''),
                        (js ''password'', js ''secret1''), (js ''role'', js ''user'')]\<rparr>]\<rparr>,
         in_flight = [\<lparr>captured_email = js ''a@b.c'', captured_role = js ''user''\<rparr>]\<rparr>"
    by (simp add: signup_fill_and_submit_def signup_eval js_eval evaluatePasswordStrength_def
        upper_AZ_def lower_az_def digit_09_def not_alnum_def)
  have l2: "length (fetched (fst (snd (Login_submit None (sample_login_state\<lparr>loading := True\<rparr>)
        fresh_browser)))) = 1"
    by (simp add: login_eval sample_eval js_eval)
  have s2: "length (fetched (fst (snd (Signup_submit (sample_signup_state\<lparr>loading := True\<rparr>)
        fresh_browser)))) = 1"
    by (simp add: signup_eval sample_eval js_eval)
  have l3: "length (fetched (world (Login_step None L_submit
        (Login_run None login_fill_and_submit (Login_start fresh_browser))))) = 2
      \<and> length (in_flight (Login_step None L_submit
        (Login_run None login_fill_and_submit (Login_start fresh_browser)))) = 2"
    unfolding l by (simp add: login_eval js_eval)
  have s3: "length (fetched (world (Signup_step S_submit
        (Signup_run signup_fill_and_submit (Signup_start None fresh_browser))))) = 2
      \<and> length (in_flight (Signup_step S_submit
        (Signup_run signup_fill_and_submit (Signup_start None fresh_browser)))) = 2"
    unfolding s by (simp add: signup_eval js_eval)
  have l4: "length (in_flight (Login_run None login_fill_and_submit (Login_start fresh_browser))) = 1
      \<and> loading (component (Login_run None login_fill_and_submit (Login_start fresh_browser)))
      \<and> length (fetched (world (Login_run None login_fill_and_submit (Login_start fresh_browser)))) = 1"
    unfolding l by (simp add: fresh_browser_def)
  have s4: "length (in_flight (Signup_run signup_fill_and_submit (Signup_start None fresh_browser))) = 1
      \<and> loading (component (Signup_run signup_fill_and_submit (Signup_start None fresh_browser)))
      \<and> length (fetched (world (Signup_run signup_fill_and_submit (Signup_start None fresh_browser)))) = 1"
    unfolding s by (simp add: fresh_browser_def)
  have l5: "Login_step None L_submit (Login_run None login_fill_and_submit (Login_start fresh_browser))
      \<noteq> Login_run None login_fill_and_submit (Login_start fresh_browser)"
    using l3 l4 by (metis numeral_eq_one_iff semiring_norm(85))
  have s5: "Signup_step S_submit (Signup_run signup_fill_and_submit (Signup_start None fresh_browser))
      \<noteq> Signup_run signup_fill_and_submit (Signup_start None fresh_browser)"
    using s3 s4 by (metis numeral_eq_one_iff semiring_norm(85))
  show ?thesis
    using l2 s2 l3 s3 l4 s4 l5 s5 by blast
qed

text \<open>
  C2 as amended, on concrete forms: in the sequence fill, submit, rejection, submit
  every submit comes through the enabled button, and one request is in flight at its
  end; a submit event that reaches the loading form of the counterexample has valid
  input and issues a second request.
\<close>

theorem submit_guard_is_the_button_witness:
  "Login_via_button None (login_fill_and_submit @ [L_settle rejected_response, L_submit])
      (Login_start fresh_browser)
   \<and> Signup_via_button (signup_fill_and_submit @ [S_settle rejected_response, S_submit])
      (Signup_start None fresh_browser)
   \<and> Login_valid (Login_run None login_fill_and_submit (Login_start fresh_browser))
   \<and> Signup_valid (Signup_run signup_fill_and_submit (Signup_start None fresh_browser))
   \<and> length (in_flight (Login_run None
        (login_fill_and_submit @ [L_settle rejected_response, L_submit])
        (Login_start fresh_browser))) \<le> 1
   \<and> length (in_flight (Signup_run
        (signup_fill_and_submit @ [S_settle rejected_response, S_submit])
        (Signup_start None fresh_browser))) \<le> 1
   \<and> length (fetched (world (Login_step None L_submit
        (Login_run None login_fill_and_submit (Login_start fresh_browser)))))
      = length (fetched (world (Login_run None login_fill_and_submit (Login_start fresh_browser)))) + 1
   \<and> length (fetched (world (Signup_step S_submit
        (Signup_run signup_fill_and_submit (Signup_start None fresh_browser)))))
      = length (fetched (world (Signup_run signup_fill_and_submit (Signup_start None fresh_browser)))) + 1"
proof -
  have l: "Login_via_button None (login_fill_and_submit @ [L_settle rejected_response, L_submit])
      (Login_start fresh_browser)"
    by (simp add: login_fill_and_submit_def rejected_response_def login_eval js_eval)
  have s: "Signup_via_button (signup_fill_and_submit @ [S_settle rejected_response, S_submit])
      (Signup_start None fresh_browser)"
    by (simp add: signup_fill_and_submit_def rejected_response_def signup_eval js_eval)
  have lv: "Login_valid (Login_run None login_fill_and_submit (Login_start fresh_browser))"
    by (simp add: Login_valid_def login_fill_and_submit_def login_eval js_eval)
  have sv: "Signup_valid (Signup_run signup_fill_and_submit (Signup_start None fresh_browser))"
    by (simp add: Signup_valid_def signup_fill_and_submit_def signup_eval js_eval)
  show ?thesis
    using l s lv sv submit_guard_is_the_button
      [where loc = None and b = fresh_browser
        and evs = "login_fill_and_submit @ [L_settle rejected_response, L_submit]"
        and evs' = "signup_fill_and_submit @ [S_settle rejected_response, S_submit]"
        and u = "Login_run None login_fill_and_submit (Login_start fresh_browser)"
        and v = "Signup_run signup_fill_and_submit (Signup_start None fresh_browser)"]
    by blast
qed

section \<open>One call of handleSubmit, by cases\<close>

text \<open>
  With input that passes validation, \<open>handleSubmit\<close> issues its request and goes on with
  the settled \<open>fetch\<close>; with input that fails, it sets the message and returns.
\<close>

lemma Login_handleSubmit_valid:
  "trim (login_state.email st) \<noteq> [] \<Longrightarrow> trim (login_state.password st) \<noteq> [] \<Longrightarrow>
   Login_handleSubmit loc r st b =
     Login_settle \<lparr>captured_email = login_state.email st, captured_from = Login_from loc\<rparr> r
       (st\<lparr>error := js '''', loading := True\<rparr>)
       (b\<lparr>fetched := fetched b @
              [\<lparr>url = js ''http://localhost:5000/api/auth/login'', http_method = js ''POST'',
                body = [(js ''email'', login_state.email st), (js ''password'', login_state.password st),
                        (js ''role'', Login_role loc)]\<rparr>]\<rparr>)"
  by (simp add: Login_handleSubmit_def Login_submit_def)

lemma Login_handleSubmit_invalid:
  "trim (login_state.email st) = [] \<or> trim (login_state.password st) = [] \<Longrightarrow>
   Login_handleSubmit loc r st b = (st\<lparr>error := js ''Email and password are required''\<rparr>, b)"
  by (auto simp add: Login_handleSubmit_def Login_submit_def)

lemma Signup_handleSubmit_valid:
  "Signup_validate (formData st) = None \<Longrightarrow>
   Signup_handleSubmit r st b =
     Signup_settle \<lparr>captured_email = email (formData st), captured_role = role st\<rparr> r
       (st\<lparr>error := js '''', loading := True\<rparr>)
       (b\<lparr>fetched := fetched b @
              [\<lparr>url = js ''http://localhost:5000/api/auth/register'', http_method = js ''POST'',
                body = [(js ''fullName'', fullName (formData st)), (js ''email'', email (formData st)),
                        (js ''password'', password (formData st)), (js ''role'', role st)]\<rparr>]\<rparr>)"
  by (simp add: Signup_handleSubmit_def Signup_submit_def)

lemma Signup_handleSubmit_invalid:
  "Signup_validate (formData st) = Some msg \<Longrightarrow>
   Signup_handleSubmit r st b = (st\<lparr>error := msg\<rparr>, b)"
  by (simp add: Signup_handleSubmit_def Signup_submit_def)

text \<open>What the rest of the function does on a successful response, and on any other.\<close>

lemma Login_settle_success:
  "Login_settle c (Responded True (Some (Json_object d))) st b =
     (st\<lparr>loading := False\<rparr>,
      b\<lparr>localStorage := (localStorage b)(js ''token'' \<mapsto> to_String (data_token d),
            js ''userRole'' \<mapsto> to_String (data_role d), js ''email'' \<mapsto> captured_email c),
        auth_calls := auth_calls b @ [Ctx_login (captured_email c)],
        navigated := navigated b @
          [if captured_from c \<noteq> js ''/'' then captured_from c else role_dashboard (data_role d)]\<rparr>)"
  by (simp add: Login_settle_def Login_try_def Let_def)

lemma Signup_settle_success:
  "Signup_settle c (Responded True (Some (Json_object d))) st b =
     (st\<lparr>loading := False\<rparr>,
      b\<lparr>auth_calls := auth_calls b @ [Ctx_signup],
        localStorage := (localStorage b)(js ''token'' \<mapsto> to_String (data_token d),
            js ''userRole'' \<mapsto> captured_role c, js ''email'' \<mapsto> captured_email c),
        navigated := navigated b @ [role_dashboard (Some (captured_role c))]\<rparr>)"
  by (simp add: Signup_settle_def Signup_try_def Let_def)

lemma Login_settle_failure:
  "fetch_class r \<noteq> Succeeded \<Longrightarrow>
   Login_settle c r st b =
     (st\<lparr>error := js ''An unexpected error occurred. Please try again.'', loading := False\<rparr>, b)"
  by (cases r rule: fetch_class.cases) (simp_all add: Login_settle_def Login_try_def)

lemma Signup_settle_failure:
  "fetch_class r \<noteq> Succeeded \<Longrightarrow>
   fst (Signup_settle c r st b) =
       st\<lparr>error := js ''Failed to create an account. Please try again.'', loading := False\<rparr>
   \<and> localStorage (snd (Signup_settle c r st b)) = localStorage b
   \<and> navigated (snd (Signup_settle c r st b)) = navigated b"
  by (cases r rule: fetch_class.cases) (simp_all add: Signup_settle_def Signup_try_def)

text \<open>The destination expression of Login (line 94) is the rule of the specification.\<close>

lemma Login_destination:
  "(if Login_from loc \<noteq> js ''/'' then Login_from loc else role_dashboard r)
     = spec_destination (opt_field loc state_from) r"
  by (simp add: Login_from_def spec_destination_def or_else_def js_def split: option.splits)

section \<open>The message of a rejection\<close>

text \<open>
  C1, evaluated on the code. When the server rejects a login with the message
  "Invalid credentials", the \<open>try\<close> block throws an \<open>Error\<close> that carries this message,
  and the \<open>catch\<close> block sets \<open>error\<close> to its own fixed text: the displayed error is
  "An unexpected error occurred. Please try again.", not the server's message. The
  signup form likewise displays "Failed to create an account. Please try again.".
\<close>

theorem rejected_message_not_displayed:
  "Login_try \<lparr>captured_email = js ''a@b.c'', captured_from = js ''/''\<rparr> rejected_response
      fresh_browser
     = (Some (Error (js ''Invalid credentials'')), fresh_browser)
   \<and> error (fst (Login_handleSubmit None rejected_response sample_login_state fresh_browser))
     = js ''An unexpected error occurred. Please try again.''
   \<and> error (fst (Login_handleSubmit None rejected_response sample_login_state fresh_browser))
     \<noteq> js ''Invalid credentials''
   \<and> error (fst (Signup_handleSubmit rejected_response sample_signup_state fresh_browser))
     = js ''Failed to create an account. Please try again.''
   \<and> error (fst (Signup_handleSubmit rejected_response sample_signup_state fresh_browser))
     \<noteq> js ''Invalid credentials''"
  by (simp add: login_eval signup_eval sample_eval js_eval)

section \<open>The stored session\<close>

text \<open>
  C3, as the code has it. After a successful login the storage holds the response's
  token and role (as \<open>String(...)\<close> renders them) and the email typed into the form;
  after a successful signup it holds the response's token, the role chosen in the form
  and the email typed into the form. No entry is taken from the response's email, and
  the signup does not read the response's role.
\<close>

theorem stored_session_fields:
  "(trim (login_state.email st) \<noteq> [] \<and> trim (login_state.password st) \<noteq> [] \<longrightarrow>
      localStorage (snd (Login_handleSubmit loc (Responded True (Some (Json_object d))) st b))
        = (localStorage b)(js ''token'' \<mapsto> to_String (data_token d),
             js ''userRole'' \<mapsto> to_String (data_role d),
             js ''email'' \<mapsto> login_state.email st))
   \<and> (Signup_validate (formData st') = None \<longrightarrow>
      localStorage (snd (Signup_handleSubmit (Responded True (Some (Json_object d))) st' b))
        = (localStorage b)(js ''token'' \<mapsto> to_String (data_token d),
             js ''userRole'' \<mapsto> role st',
             js ''email'' \<mapsto> email (formData st')))"
  by (simp add: Login_handleSubmit_valid Signup_handleSubmit_valid Login_settle_success
      Signup_settle_success)

text \<open>
  C3, as the specification states it, fails: a login whose response carries the email
  "x@y.z" stores the typed email "a@b.c", and a signup with role "admin" chosen in the
  form stores "admin" although the response's role is "user".
\<close>

theorem stored_session_counterexample:
  "localStorage (snd (Login_handleSubmit None (Responded True (Some (Json_object sample_data)))
      sample_login_state fresh_browser)) (js ''email'') = Some (js ''a@b.c'')
   \<and> localStorage (snd (Login_handleSubmit None (Responded True (Some (Json_object sample_data)))
      sample_login_state fresh_browser)) (js ''email'') \<noteq> data_email sample_data
   \<and> localStorage (snd (Signup_handleSubmit (Responded True (Some (Json_object sample_data)))
      sample_signup_state fresh_browser)) (js ''userRole'') = Some (js ''admin'')
   \<and> localStorage (snd (Signup_handleSubmit (Responded True (Some (Json_object sample_data)))
      sample_signup_state fresh_browser)) (js ''userRole'') \<noteq> data_role sample_data"
  by (simp add: login_eval signup_eval sample_eval js_eval)

text \<open>C3 as amended, on the sample inputs.\<close>

theorem stored_session_fields_witness:
  "trim (login_state.email sample_login_state) \<noteq> []
   \<and> trim (login_state.password sample_login_state) \<noteq> []
   \<and> Signup_validate (formData sample_signup_state) = None
   \<and> localStorage (snd (Login_handleSubmit None (Responded True (Some (Json_object sample_data)))
        sample_login_state fresh_browser))
      = [js ''token'' \<mapsto> js ''abc'', js ''userRole'' \<mapsto> js ''user'', js ''email'' \<mapsto> js ''a@b.c'']
   \<and> localStorage (snd (Signup_handleSubmit (Responded True (Some (Json_object sample_data)))
        sample_signup_state fresh_browser))
      = [js ''token'' \<mapsto> js ''abc'', js ''userRole'' \<mapsto> js ''admin'', js ''email'' \<mapsto> js ''a@b.c'']"
  using sample_login_valid sample_signup_valid
    stored_session_fields [where st = sample_login_state and st' = sample_signup_state
      and loc = None and d = sample_data and b = fresh_browser]
  by (simp add: sample_eval to_String_def fresh_browser_def)

section \<open>The destination after success\<close>

text \<open>
  C4, as the code has it. After a successful login the redirect goes to the intended
  destination of the navigation state when it is present (truthy) and not the root
  path, and otherwise to the dashboard of the response's role. After a successful
  signup it always goes to the dashboard of the role chosen in the form; the intended
  destination is not read.
\<close>

theorem redirect_destination:
  "(trim (login_state.email st) \<noteq> [] \<and> trim (login_state.password st) \<noteq> [] \<longrightarrow>
      navigated (snd (Login_handleSubmit loc (Responded True (Some (Json_object d))) st b))
        = navigated b @ [spec_destination (opt_field loc state_from) (data_role d)])
   \<and> (Signup_validate (formData st') = None \<longrightarrow>
      navigated (snd (Signup_handleSubmit (Responded True (Some (Json_object d))) st' b))
        = navigated b @ [role_dashboard (Some (role st'))])"
  by (simp add: Login_handleSubmit_valid Signup_handleSubmit_valid Login_settle_success
      Signup_settle_success Login_destination [symmetric])

text \<open>
  C4, as the specification states it, fails for the signup flow: with the intended
  destination "/orders" in the navigation state, a successful signup redirects to
  "/user/dashboard".
\<close>

theorem redirect_counterexample:
  "navigated (world (Signup_run
       [S_change F_fullName (js ''Ann''), S_change F_email (js ''a@b.c''),
        S_change F_password (js ''secret1''), S_change F_confirmPassword (js ''secret1''),
        S_submit, S_settle (Responded True (Some (Json_object sample_data)))]
       (Signup_start orders_location fresh_browser)))
     = [js ''/user/dashboard'']
   \<and> navigated (world (Signup_run
       [S_change F_fullName (js ''Ann''), S_change F_email (js ''a@b.c''),
        S_change F_password (js ''secret1''), S_change F_confirmPassword (js ''secret1''),
        S_submit, S_settle (Responded True (Some (Json_object sample_data)))]
       (Signup_start orders_location fresh_browser)))
     \<noteq> [js ''/orders'']"
  by (simp add: signup_eval sample_eval js_eval)

text \<open>
  C4 as amended, on the sample inputs: the login with intended destination "/orders"
  goes to "/orders"; the signup with role "admin" chosen goes to "/admin/dashboard"
  although the response's role is "user".
\<close>

theorem redirect_destination_witness:
  "trim (login_state.email sample_login_state) \<noteq> []
   \<and> trim (login_state.password sample_login_state) \<noteq> []
   \<and> Signup_validate (formData sample_signup_state) = None
   \<and> navigated (snd (Login_handleSubmit orders_location
        (Responded True (Some (Json_object sample_data))) sample_login_state fresh_browser))
      = [js ''/orders'']
   \<and> navigated (snd (Signup_handleSubmit (Responded True (Some (Json_object sample_data)))
        sample_signup_state fresh_browser))
      = [js ''/admin/dashboard'']"
  using sample_login_valid sample_signup_valid
    redirect_destination [where st = sample_login_state and st' = sample_signup_state
      and loc = orders_location and d = sample_data and b = fresh_browser]
  by (simp add: sample_eval spec_destination_def opt_field_def role_dashboard_def js_def
      fresh_browser_def)

section \<open>Failing validation\<close>

text \<open>
  C7. When the input fails validation, in the login form (email or password empty after
  trimming) or in the signup form (any of the five checks), \<open>handleSubmit\<close> issues no
  request and suspends nowhere: the browser is left as it was, \<open>loading\<close> keeps its
  value (false, for a form that accepts a submit), and \<open>error\<close> is the validation
  message.
\<close>

theorem invalid_input_no_request:
  "(trim (login_state.email st) = [] \<or> trim (login_state.password st) = [] \<longrightarrow>
      Login_submit loc st b = (st\<lparr>error := js ''Email and password are required''\<rparr>, b, None)
      \<and> snd (Login_handleSubmit loc r st b) = b
      \<and> fetched (snd (Login_handleSubmit loc r st b)) = fetched b
      \<and> loading (fst (Login_handleSubmit loc r st b)) = loading st
      \<and> error (fst (Login_handleSubmit loc r st b)) = js ''Email and password are required'')
   \<and> (Signup_validate (formData st') = Some msg \<longrightarrow>
      Signup_submit st' b = (st'\<lparr>error := msg\<rparr>, b, None)
      \<and> snd (Signup_handleSubmit r st' b) = b
      \<and> fetched (snd (Signup_handleSubmit r st' b)) = fetched b
      \<and> loading (fst (Signup_handleSubmit r st' b)) = loading st'
      \<and> error (fst (Signup_handleSubmit r st' b)) = msg)"
proof -
  have l: "trim (login_state.email st) = [] \<or> trim (login_state.password st) = [] \<Longrightarrow>
      Login_submit loc st b = (st\<lparr>error := js ''Email and password are required''\<rparr>, b, None)"
    by (auto simp add: Login_submit_def)
  have s: "Signup_validate (formData st') = Some msg \<Longrightarrow>
      Signup_submit st' b = (st'\<lparr>error := msg\<rparr>, b, None)"
    by (simp add: Signup_submit_def)
  show ?thesis
    using l s by (simp add: Login_handleSubmit_def Signup_handleSubmit_def)
qed

text \<open>
  C7 on concrete inputs: a login with a password of two blanks, and the signup of the
  specification's scenario with password and confirmation "abc".
\<close>

theorem invalid_input_no_request_witness:
  "trim (login_state.password (sample_login_state\<lparr>login_state.password := js ''  ''\<rparr>)) = []
   \<and> Signup_validate (formData (sample_signup_state
        \<lparr>formData := (formData sample_signup_state)\<lparr>password := js ''abc'', confirmPassword := js ''abc''\<rparr>\<rparr>))
      = Some (js ''Password must be at least 6 characters'')
   \<and> fetched (snd (Login_handleSubmit None Fetch_rejected
        (sample_login_state\<lparr>login_state.password := js ''  ''\<rparr>) fresh_browser)) = []
   \<and> \<not> loading (fst (Login_handleSubmit None Fetch_rejected
        (sample_login_state\<lparr>login_state.password := js ''  ''\<rparr>) fresh_browser))
   \<and> fetched (snd (Signup_handleSubmit Fetch_rejected (sample_signup_state
        \<lparr>formData := (formData sample_signup_state)\<lparr>password := js ''abc'', confirmPassword := js ''abc''\<rparr>\<rparr>)
        fresh_browser)) = []
   \<and> \<not> loading (fst (Signup_handleSubmit Fetch_rejected (sample_signup_state
        \<lparr>formData := (formData sample_signup_state)\<lparr>password := js ''abc'', confirmPassword := js ''abc''\<rparr>\<rparr>)
        fresh_browser))
   \<and> error (fst (Signup_handleSubmit Fetch_rejected (sample_signup_state
        \<lparr>formData := (formData sample_signup_state)\<lparr>password := js ''abc'', confirmPassword := js ''abc''\<rparr>\<rparr>)
        fresh_browser)) = js ''Password must be at least 6 characters''"
proof -
  have l: "trim (login_state.password (sample_login_state\<lparr>login_state.password := js ''  ''\<rparr>)) = []"
    by (simp add: sample_eval js_eval)
  have s: "Signup_validate (formData (sample_signup_state
        \<lparr>formData := (formData sample_signup_state)\<lparr>password := js ''abc'', confirmPassword := js ''abc''\<rparr>\<rparr>))
      = Some (js ''Password must be at least 6 characters'')"
    by (simp add: sample_eval js_eval Signup_validate_def)
  show ?thesis
    using l s invalid_input_no_request
      [where st = "sample_login_state\<lparr>login_state.password := js ''  ''\<rparr>" and loc = None
        and b = fresh_browser and r = Fetch_rejected
        and st' = "sample_signup_state
          \<lparr>formData := (formData sample_signup_state)\<lparr>password := js ''abc'', confirmPassword := js ''abc''\<rparr>\<rparr>"
        and msg = "js ''Password must be at least 6 characters''"]
    by (simp add: fresh_browser_def sample_login_state_def sample_signup_state_def)
qed

section \<open>Failed attempts\<close>

text \<open>
  C8. For a call of \<open>handleSubmit\<close> on a form that is not loading, whenever the attempt
  does not succeed (validation error, rejection, transport error), the storage after
  the call equals the storage before it, and \<open>loading\<close> is false when the call ends.
\<close>

theorem failed_attempt_leaves_storage:
  "(\<not> loading st \<and> Login_outcome st r \<noteq> Succeeded \<longrightarrow>
      localStorage (snd (Login_handleSubmit loc r st b)) = localStorage b
      \<and> \<not> loading (fst (Login_handleSubmit loc r st b)))
   \<and> (\<not> loading st' \<and> Signup_outcome st' r \<noteq> Succeeded \<longrightarrow>
      localStorage (snd (Signup_handleSubmit r st' b)) = localStorage b
      \<and> \<not> loading (fst (Signup_handleSubmit r st' b)))"
proof -
  have l: "localStorage (snd (Login_handleSubmit loc r st b)) = localStorage b
      \<and> \<not> loading (fst (Login_handleSubmit loc r st b))"
    if "\<not> loading st" and "Login_outcome st r \<noteq> Succeeded"
  proof (cases "trim (login_state.email st) = [] \<or> trim (login_state.password st) = []")
    case True
    then show ?thesis
      using that by (simp add: Login_handleSubmit_invalid)
  next
    case False
    then show ?thesis
      using that by (simp add: Login_handleSubmit_valid Login_outcome_def Login_settle_failure)
  qed
  have s: "localStorage (snd (Signup_handleSubmit r st' b)) = localStorage b
      \<and> \<not> loading (fst (Signup_handleSubmit r st' b))"
    if "\<not> loading st'" and "Signup_outcome st' r \<noteq> Succeeded"
  proof (cases "Signup_validate (formData st')")
    case (Some msg)
    then show ?thesis
      using that by (simp add: Signup_handleSubmit_invalid)
  next
    case None
    then show ?thesis
      using that by (simp add: Signup_handleSubmit_valid Signup_outcome_def Signup_settle_failure)
  qed
  show ?thesis
    using l s by blast
qed

text \<open>
  C8 on the rejection "Invalid credentials", starting from a storage that holds a
  session.
\<close>

theorem failed_attempt_leaves_storage_witness:
  "\<not> loading sample_login_state
   \<and> Login_outcome sample_login_state rejected_response = Rejected
   \<and> \<not> loading sample_signup_state
   \<and> Signup_outcome sample_signup_state rejected_response = Rejected
   \<and> localStorage (snd (Login_handleSubmit None rejected_response sample_login_state session_browser))
      = localStorage session_browser
   \<and> \<not> loading (fst (Login_handleSubmit None rejected_response sample_login_state session_browser))
   \<and> localStorage (snd (Signup_handleSubmit rejected_response sample_signup_state session_browser))
      = localStorage session_browser
   \<and> \<not> loading (fst (Signup_handleSubmit rejected_response sample_signup_state session_browser))"
proof -
  have l: "\<not> loading sample_login_state
      \<and> Login_outcome sample_login_state rejected_response = Rejected"
    using sample_login_valid
    by (simp add: Login_outcome_def rejected_response_def sample_login_state_def)
  have s: "\<not> loading sample_signup_state
      \<and> Signup_outcome sample_signup_state rejected_response = Rejected"
    using sample_signup_valid
    by (simp add: Signup_outcome_def rejected_response_def sample_signup_state_def)
  show ?thesis
    using l s failed_attempt_leaves_storage
      [where st = sample_login_state and st' = sample_signup_state and r = rejected_response
        and loc = None and b = session_browser]
    by simp
qed

section \<open>Mounting with a stored session\<close>

text \<open>
  C9, as the code has it. When the storage holds a non-empty token, mounting either
  component renders the component with its initial state (the form) and then the effect
  navigates to the dashboard of the stored role: "/admin/dashboard" for the role
  "admin", "/user/dashboard" for any other or no stored role.
\<close>

theorem mount_redirect:
  "(localStorage b (js ''token'') = Some t \<and> t \<noteq> [] \<longrightarrow>
      Login_mount loc b =
        (Login_render loc Login_init,
         b\<lparr>navigated := navigated b @ [role_dashboard (localStorage b (js ''userRole''))]\<rparr>)
      \<and> Signup_mount loc b =
        (Signup_render Signup_init, Signup_role_effect loc Signup_init,
         b\<lparr>navigated := navigated b @ [role_dashboard (localStorage b (js ''userRole''))]\<rparr>))
   \<and> role_dashboard (Some (js ''admin'')) = js ''/admin/dashboard''
   \<and> (r \<noteq> Some (js ''admin'') \<longrightarrow> role_dashboard r = js ''/user/dashboard'')"
  by (simp add: Login_mount_def Login_mount_effect_def Signup_mount_def Signup_mount_effect_def
      role_dashboard_def)

text \<open>
  C9, as the specification states it, fails: with the token "abc" and the role "admin"
  in storage, the first render of Login is the login form, and the redirect is issued
  after it; and with an empty token in storage there is no redirect.
\<close>

theorem mount_counterexample:
  "localStorage session_browser (js ''token'') = Some (js ''abc'')
   \<and> fst (Login_mount None session_browser)
      = \<lparr>heading = js ''User Login'', alert = None, email_input = js '''', password_input = js '''',
         submit_disabled = False, submit_label = js ''Login''\<rparr>
   \<and> navigated (snd (Login_mount None session_browser)) = [js ''/admin/dashboard'']
   \<and> localStorage (session_browser\<lparr>localStorage := [js ''token'' \<mapsto> js '''']\<rparr>) (js ''token'')
      = Some (js '''')
   \<and> navigated (snd (Login_mount None (session_browser\<lparr>localStorage := [js ''token'' \<mapsto> js '''']\<rparr>)))
      = []"
  by (simp add: Login_mount_def Login_mount_effect_def Login_render_def Login_init_def
      Login_role_def session_browser_def js_eval)

text \<open>C9 as amended, on the storage that holds the token "abc" and the role "admin".\<close>

theorem mount_redirect_witness:
  "localStorage session_browser (js ''token'') = Some (js ''abc'') \<and> js ''abc'' \<noteq> []
   \<and> navigated (snd (Login_mount None session_browser)) = [js ''/admin/dashboard'']
   \<and> navigated (snd (snd (Signup_mount None session_browser))) = [js ''/admin/dashboard'']
   \<and> Some (js ''user'') \<noteq> Some (js ''admin'')
   \<and> role_dashboard (Some (js ''user'')) = js ''/user/dashboard''"
proof -
  have h: "localStorage session_browser (js ''token'') = Some (js ''abc'') \<and> js ''abc'' \<noteq> []"
    by (simp add: session_browser_def js_def)
  have r: "Some (js ''user'') \<noteq> Some (js ''admin'')"
    by (simp add: js_def)
  show ?thesis
    using h r mount_redirect
      [where b = session_browser and t = "js ''abc''" and loc = None and r = "Some (js ''user'')"]
    by (simp add: session_browser_def role_dashboard_def js_def)
qed

section \<open>Passwords of whitespace\<close>

text \<open>
  C10. In the signup form, when full name and email pass their checks, a password of
  six or more characters that are all whitespace, repeated in the confirmation, passes
  validation, and the request is issued with that password. In the login form a
  password that is all whitespace is rejected as empty and no request is issued.
\<close>

theorem whitespace_password:
  "(trim (fullName (formData st)) \<noteq> [] \<and> trim (email (formData st)) \<noteq> []
      \<and> emailRegex_test (email (formData st))
      \<and> list_all is_js_space (password (formData st)) \<and> length (password (formData st)) \<ge> 6
      \<and> confirmPassword (formData st) = password (formData st) \<longrightarrow>
      Signup_validate (formData st) = None
      \<and> Signup_submit st b =
          (st\<lparr>error := js '''', loading := True\<rparr>,
           b\<lparr>fetched := fetched b @
              [\<lparr>url = js ''http://localhost:5000/api/auth/register'', http_method = js ''POST'',
                body = [(js ''fullName'', fullName (formData st)), (js ''email'', email (formData st)),
                        (js ''password'', password (formData st)), (js ''role'', role st)]\<rparr>]\<rparr>,
           Some \<lparr>captured_email = email (formData st), captured_role = role st\<rparr>))
   \<and> (list_all is_js_space (login_state.password st') \<longrightarrow>
      Login_submit loc st' b = (st'\<lparr>error := js ''Email and password are required''\<rparr>, b, None))"
proof -
  have v: "Signup_validate (formData st) = None"
    if "trim (fullName (formData st)) \<noteq> []" "trim (email (formData st)) \<noteq> []"
      "emailRegex_test (email (formData st))" "length (password (formData st)) \<ge> 6"
      "confirmPassword (formData st) = password (formData st)"
    using that by (simp add: Signup_validate_def)
  have l: "Login_submit loc st' b = (st'\<lparr>error := js ''Email and password are required''\<rparr>, b, None)"
    if "list_all is_js_space (login_state.password st')"
    using trim_all_space [OF that] by (simp add: Login_submit_def)
  show ?thesis
    using v l by (auto simp add: Signup_submit_def)
qed

text \<open>C10 on a password of six blanks.\<close>

theorem whitespace_password_witness:
  "trim (fullName (formData blank_password_signup)) \<noteq> []
   \<and> trim (email (formData blank_password_signup)) \<noteq> []
   \<and> emailRegex_test (email (formData blank_password_signup))
   \<and> list_all is_js_space (password (formData blank_password_signup))
   \<and> length (password (formData blank_password_signup)) \<ge> 6
   \<and> confirmPassword (formData blank_password_signup) = password (formData blank_password_signup)
   \<and> list_all is_js_space (login_state.password (sample_login_state\<lparr>login_state.password := js ''      ''\<rparr>))
   \<and> Signup_validate (formData blank_password_signup) = None
   \<and> fetched (fst (snd (Signup_submit blank_password_signup fresh_browser)))
      = [\<lparr>url = js ''http://localhost:5000/api/auth/register'', http_method = js ''POST'',
          body = [(js ''fullName'', js ''Ann''), (js ''email'', js ''a@b.c''),
                  (js ''password'', js ''      ''), (js ''role'', js ''admin'')]\<rparr>]
   \<and> Login_submit None (sample_login_state\<lparr>login_state.password := js ''      ''\<rparr>) fresh_browser
      = (sample_login_state\<lparr>login_state.password := js ''      '',
           error := js ''Email and password are required''\<rparr>, fresh_browser, None)"
proof -
  have h: "trim (fullName (formData blank_password_signup)) \<noteq> []
      \<and> trim (email (formData blank_password_signup)) \<noteq> []
      \<and> emailRegex_test (email (formData blank_password_signup))
      \<and> list_all is_js_space (password (formData blank_password_signup))
      \<and> length (password (formData blank_password_signup)) \<ge> 6
      \<and> confirmPassword (formData blank_password_signup) = password (formData blank_password_signup)"
    by (simp add: blank_password_signup_def sample_signup_state_def js_eval)
  have l: "list_all is_js_space
      (login_state.password (sample_login_state\<lparr>login_state.password := js ''      ''\<rparr>))"
    by (simp add: js_eval)
  show ?thesis
    using h l whitespace_password
      [where st = blank_password_signup and b = fresh_browser and loc = None
        and st' = "sample_login_state\<lparr>login_state.password := js ''      ''\<rparr>"]
    by (simp add: blank_password_signup_def sample_signup_state_def fresh_browser_def)
qed

end
